theory Spec2Isabelle
  imports Complex_Main "HOL-Library.Sublist"
begin

section \<open>Session lifecycle and derived metrics of the sat-api backend\<close>

text \<open>
  A shallow embedding of the session store accessor, the metrics aggregator, the subject
  classifier adapter and the retention cleanup of the backend (\<^verbatim>\<open>userService\<close>,
  \<^verbatim>\<open>CleanupService\<close>, \<^verbatim>\<open>DataRetentionScheduler\<close>).

  Conventions of the embedding:
  \<^item> a \<^verbatim>\<open>Date\<close> is its number of milliseconds since the epoch, an \<^typ>\<open>int\<close>; the
    server's local time zone is taken to be UTC, so that local midnight is a multiple of
    86400000 ms and \<^verbatim>\<open>setDate(getDate() - n)\<close> subtracts \<open>n\<close> whole days;
  \<^item> a JavaScript number that the code divides, scales and rounds is an exact rational;
    \<^verbatim>\<open>Math.round\<close> rounds half up;
  \<^item> the database is passed explicitly and returned updated; an exception is a value
    \<open>Inl e\<close> of a sum type;
  \<^item> what the outside world decides (the clock, the reply of the completion API,
    whether a storage call fails) is a parameter of the function that asks for it.
\<close>

subsection \<open>Time and numbers\<close>

type_synonym timestamp = int

definition msPerDay :: int where
  "msPerDay = 1000 * 60 * 60 * 24"

text \<open>\<^verbatim>\<open>d.setHours(0, 0, 0, 0)\<close>: midnight of the day of \<open>t\<close>.\<close>

definition setHours0 :: "timestamp \<Rightarrow> timestamp" where
  "setHours0 t = (t div msPerDay) * msPerDay"

text \<open>\<^verbatim>\<open>d.setDate(d.getDate() - n)\<close>.\<close>

definition minusDays :: "timestamp \<Rightarrow> int \<Rightarrow> timestamp" where
  "minusDays t n = t - n * msPerDay"

text \<open>\<^verbatim>\<open>Math.round\<close>: the nearest integer, a tie going up.\<close>

definition js_round :: "rat \<Rightarrow> int" where
  "js_round x = \<lfloor>x + 1 / 2\<rfloor>"

subsection \<open>Daily activity and star progress\<close>

text \<open>
  Modelled from the spec: the \<^verbatim>\<open>UserActivity\<close> table (its schema is not among the
  sources): one row per user and calendar day, the counters starting at 0.
\<close>

record activity =
  a_userId :: string
  a_date :: timestamp
  studyMinutes :: int
  questionsAnswered :: int
  photoQuestions :: int
  positiveActions :: int
  starProgress :: int

type_synonym activity_table = "string \<times> timestamp \<rightharpoonup> activity"

definition newActivity :: "string \<Rightarrow> timestamp \<Rightarrow> activity" where
  "newActivity userId today =
     \<lparr>a_userId = userId, a_date = today, studyMinutes = 0, questionsAnswered = 0,
      photoQuestions = 0, positiveActions = 0, starProgress = 0\<rparr>"

text \<open>\<^verbatim>\<open>getTodayActivity\<close>: today's row, created when it does not exist.\<close>

definition getTodayActivity ::
  "timestamp \<Rightarrow> string \<Rightarrow> activity_table \<Rightarrow> activity \<times> activity_table" where
  "getTodayActivity now userId tbl =
     (let today = setHours0 now in
      case tbl (userId, today) of
        Some activity \<Rightarrow> (activity, tbl)
      | None \<Rightarrow>
          (let activity = newActivity userId today
           in (activity, tbl((userId, today) \<mapsto> activity))))"

text \<open>
  \<^verbatim>\<open>updateTodayActivity\<close> is an upsert; the only caller modelled here passes
  \<^verbatim>\<open>{ starProgress: progress }\<close>, so the update is the new value of that column.
\<close>

definition updateTodayActivity ::
  "timestamp \<Rightarrow> string \<Rightarrow> int \<Rightarrow> activity_table \<Rightarrow> activity_table" where
  "updateTodayActivity now userId progress tbl =
     (let today = setHours0 now in
      case tbl (userId, today) of
        Some activity \<Rightarrow> tbl((userId, today) \<mapsto> activity\<lparr>starProgress := progress\<rparr>)
      | None \<Rightarrow> tbl((userId, today) \<mapsto> (newActivity userId today)\<lparr>starProgress := progress\<rparr>))"

definition STUDY_GOAL_MINUTES :: rat where
  "STUDY_GOAL_MINUTES = 120"

definition QUESTIONS_GOAL :: rat where
  "QUESTIONS_GOAL = 20"

text \<open>The arithmetic of \<^verbatim>\<open>calculateStarProgress\<close> on the two counters it reads.\<close>

definition starProgressOf :: "int \<Rightarrow> int \<Rightarrow> int" where
  "starProgressOf minutes questions =
     (let studyProgress = min ((of_int minutes / STUDY_GOAL_MINUTES) * 100) 100;
          questionsProgress = min ((of_int questions / QUESTIONS_GOAL) * 100) 100;
          streakProgress = (if minutes > 0 then 100 else 0);
          totalProgress =
            studyProgress * (4 / 10) + questionsProgress * (3 / 10) + streakProgress * (3 / 10)
      in min (js_round totalProgress) 100)"

definition calculateStarProgress ::
  "timestamp \<Rightarrow> string \<Rightarrow> activity_table \<Rightarrow> int \<times> activity_table" where
  "calculateStarProgress now userId tbl =
     (let (activity, tbl1) = getTodayActivity now userId tbl;
          progress = starProgressOf (studyMinutes activity) (questionsAnswered activity)
      in (progress, updateTodayActivity now userId progress tbl1))"

text \<open>The formula of the specification, written out: the weighted sum, rounded, clamped.\<close>

definition starFormula :: "int \<Rightarrow> int \<Rightarrow> int" where
  "starFormula minutes questions =
     max 0 (min 100 (js_round
       (40 * min (of_int minutes / 120) 1 + 30 * min (of_int questions / 20) 1
        + 30 * (if minutes > 0 then 1 else 0))))"

subsection \<open>Streaks\<close>









subsection \<open>Sessions, transcripts and the database\<close>

text \<open>
  A transcript message, with the fields the code reads: \<^verbatim>\<open>id\<close> (the welcome message has
  id \<^verbatim>\<open>'1'\<close>), \<^verbatim>\<open>sender\<close>, \<^verbatim>\<open>text\<close> (\<open>None\<close> when absent), the \<^verbatim>\<open>url\<close> of each
  attachment (\<open>None\<close> when it is not a string) and the legacy \<^verbatim>\<open>image\<close> field.
\<close>

record message =
  m_id :: string
  m_sender :: string
  m_text :: "string option"
  m_attachments :: "string option list"
  m_image :: "string option"

text \<open>
  The JSON column \<^verbatim>\<open>data\<close> of a session: the messages (an absent array and an empty one
  behave alike in all the code below), the whiteboard payload (\<open>None\<close> for \<^verbatim>\<open>null\<close>) and
  the attachment urls of each entry of the alternative \<^verbatim>\<open>chatHistory\<close> array.
\<close>

record session_data =
  d_messages :: "message list"
  d_whiteboard :: "string option"
  d_chatHistory :: "string option list list"

text \<open>
  Modelled from the spec: the \<^verbatim>\<open>Session\<close> table (the schema file is not among the
  sources; the columns are those of section 3 of the specification and of the code that
  reads them). The id is the primary key; \<^verbatim>\<open>updatedAt\<close> is set on every write.
\<close>

record session =
  s_id :: nat
  s_userId :: string
  s_data :: "session_data option"
  s_completed :: bool
  s_lastPoint :: "string option"
  s_subject :: "string option"
  s_topic :: "string option"
  s_duration :: int
  s_questionsAnswered :: int
  s_correctAnswers :: int
  s_photoUploadsCount :: int
  s_aiInteractions :: int
  s_spreadingJoyActions :: int
  s_createdAt :: timestamp
  s_updatedAt :: timestamp

text \<open>
  The body of a create or update request, \<^verbatim>\<open>data: any\<close> in the source: for each column
  a client sets, \<open>None\<close> when the body does not mention it. (The key, the owner and the
  time stamps are not taken from the body.)
\<close>

record session_input =
  i_data :: "session_data option option"
  i_completed :: "bool option"
  i_lastPoint :: "string option option"
  i_subject :: "string option option"
  i_topic :: "string option option"
  i_duration :: "int option"
  i_questionsAnswered :: "int option"
  i_correctAnswers :: "int option"

definition noInput :: session_input where
  "noInput = \<lparr>i_data = None, i_completed = None, i_lastPoint = None, i_subject = None,
     i_topic = None, i_duration = None, i_questionsAnswered = None, i_correctAnswers = None\<rparr>"

definition orKeep :: "'a option \<Rightarrow> 'a \<Rightarrow> 'a" where
  "orKeep v old = (case v of None \<Rightarrow> old | Some new \<Rightarrow> new)"

definition applyInput :: "session_input \<Rightarrow> session \<Rightarrow> session" where
  "applyInput inp s =
     s\<lparr>s_data := orKeep (i_data inp) (s_data s),
       s_completed := orKeep (i_completed inp) (s_completed s),
       s_lastPoint := orKeep (i_lastPoint inp) (s_lastPoint s),
       s_subject := orKeep (i_subject inp) (s_subject s),
       s_topic := orKeep (i_topic inp) (s_topic s),
       s_duration := orKeep (i_duration inp) (s_duration s),
       s_questionsAnswered := orKeep (i_questionsAnswered inp) (s_questionsAnswered s),
       s_correctAnswers := orKeep (i_correctAnswers inp) (s_correctAnswers s)\<rparr>"

text \<open>A \<^verbatim>\<open>Progress\<close> row, with the columns and the metadata \<^verbatim>\<open>updateSession\<close> writes.\<close>

record progress =
  p_userId :: string
  p_subject :: string
  p_topic :: "string option"
  p_score :: int
  p_accuracy :: int
  p_timeSpent :: int
  p_questionsAttempted :: int
  p_questionsCorrect :: int
  p_questionsWrong :: int
  p_level :: string
  p_sessionId :: nat
  p_hasWhiteboard :: bool
  p_photoUploads :: int
  p_aiInteractions :: int
  p_isMultiSubjectSession :: bool
  p_totalSubjectsInSession :: nat

text \<open>
  The database: the session rows in the order the store keeps them, the next key to hand
  out, and the progress rows in the order they were created.
\<close>

record db =
  sessions :: "session list"
  nextId :: nat
  progressRows :: "progress list"


text \<open>
  Errors of the storage layer and of the service: \<open>P2025\<close> is the ORM's "record not
  found"; \<open>DbError\<close> any other failure of a storage call; the two messages of
  \<^verbatim>\<open>resumeSession\<close>; \<open>NonFinite\<close> the ORM's rejection of a number that is not finite for
  an integer column; \<open>TypeError\<close> a read of a field of \<^verbatim>\<open>undefined\<close>.
\<close>

datatype error =
    P2025
  | DbError
  | SessionNotFound
  | CannotResumeCompleted
  | NonFinite
  | TypeError

subsubsection \<open>Storage calls\<close>

text \<open>\<^verbatim>\<open>prisma.session.create\<close>: a fresh key, the column defaults, then the body.\<close>

definition newSession :: "nat \<Rightarrow> timestamp \<Rightarrow> string \<Rightarrow> session" where
  "newSession k now userId =
     \<lparr>s_id = k, s_userId = userId, s_data = None, s_completed = False, s_lastPoint = None,
      s_subject = None, s_topic = None, s_duration = 0, s_questionsAnswered = 0,
      s_correctAnswers = 0, s_photoUploadsCount = 0, s_aiInteractions = 0,
      s_spreadingJoyActions = 0, s_createdAt = now, s_updatedAt = now\<rparr>"


text \<open>The row with a given key: the first one, the key being unique.\<close>

definition findSession :: "nat \<Rightarrow> db \<Rightarrow> session option" where
  "findSession k d = find (\<lambda>s. s_id s = k) (sessions d)"

fun replaceFirst :: "nat \<Rightarrow> session \<Rightarrow> session list \<Rightarrow> session list" where
  "replaceFirst k new [] = []"
| "replaceFirst k new (s # ss) = (if s_id s = k then new # ss else s # replaceFirst k new ss)"

fun removeFirst :: "nat \<Rightarrow> session list \<Rightarrow> session list" where
  "removeFirst k [] = []"
| "removeFirst k (s # ss) = (if s_id s = k then ss else s # removeFirst k ss)"

text \<open>\<^verbatim>\<open>prisma.session.update({ where: { id }, data })\<close>; it throws P2025 when no row has the key.\<close>

definition session_update :: "timestamp \<Rightarrow> nat \<Rightarrow> session_input \<Rightarrow> db \<Rightarrow> error + session \<times> db" where
  "session_update now k inp d =
     (case findSession k d of
        None \<Rightarrow> Inl P2025
      | Some s \<Rightarrow>
          (let s' = (applyInput inp s)\<lparr>s_updatedAt := now\<rparr>
           in Inr (s', d\<lparr>sessions := replaceFirst k s' (sessions d)\<rparr>)))"

text \<open>
  \<^verbatim>\<open>prisma.session.delete({ where: { id } })\<close>. The parameter \<open>fails\<close> says for which keys
  the storage call fails for a reason of its own; otherwise it throws P2025 when no row
  has the key, and returns the deleted row when one has.
\<close>

definition session_delete :: "(nat \<Rightarrow> bool) \<Rightarrow> nat \<Rightarrow> db \<Rightarrow> error + session \<times> db" where
  "session_delete fails k d =
     (if fails k then Inl DbError
      else case findSession k d of
             None \<Rightarrow> Inl P2025
           | Some s \<Rightarrow> Inr (s, d\<lparr>sessions := removeFirst k (sessions d)\<rparr>))"

subsubsection \<open>The session store accessor\<close>

text \<open>The "true active" sessions of a user: the \<^verbatim>\<open>where\<close> clause of \<^verbatim>\<open>getActiveSession\<close>.\<close>

definition isTrueActive :: "string \<Rightarrow> session \<Rightarrow> bool" where
  "isTrueActive userId s =
     (s_userId s = userId \<and> s_completed s = False
      \<and> (s_lastPoint s = None \<or> s_lastPoint s = Some ''''))"

definition activeSessionsOf :: "string \<Rightarrow> db \<Rightarrow> session list" where
  "activeSessionsOf userId d =
     sort_key (\<lambda>s. - s_updatedAt s) (filter (isTrueActive userId) (sessions d))"

text \<open>
  The first loop of \<^verbatim>\<open>getActiveSession\<close>: \<^verbatim>\<open>validSession\<close> and \<^verbatim>\<open>sessionsToDelete\<close> as it
  leaves them.
\<close>

fun pickValid :: "session list \<Rightarrow> session option \<Rightarrow> nat list \<Rightarrow> session option \<times> nat list" where
  "pickValid [] validSession sessionsToDelete = (validSession, sessionsToDelete)"
| "pickValid (s # ss) validSession sessionsToDelete =
     (if s_data s \<noteq> None \<and> validSession = None
      then pickValid ss (Some s) sessionsToDelete
      else pickValid ss validSession (sessionsToDelete @ [s_id s]))"

text \<open>The second loop: each deletion in its own \<^verbatim>\<open>try\<close>; a failure is logged and skipped.\<close>

fun deleteDuplicates :: "(nat \<Rightarrow> bool) \<Rightarrow> nat list \<Rightarrow> db \<Rightarrow> db" where
  "deleteDuplicates fails [] d = d"
| "deleteDuplicates fails (k # ks) d =
     (case session_delete fails k d of
        Inl e \<Rightarrow> deleteDuplicates fails ks d
      | Inr (s, d') \<Rightarrow> deleteDuplicates fails ks d')"

definition getActiveSession :: "(nat \<Rightarrow> bool) \<Rightarrow> string \<Rightarrow> db \<Rightarrow> session option \<times> db" where
  "getActiveSession fails userId d =
     (let activeSessions = activeSessionsOf userId d in
      case activeSessions of
        [] \<Rightarrow> (None, d)
      | [s] \<Rightarrow> (Some s, d)
      | first # _ # _ \<Rightarrow>
          (let (validSession, sessionsToDelete) = pickValid activeSessions None [];
               (validSession, sessionsToDelete) =
                 (case validSession of
                    None \<Rightarrow> (Some first, remove1 (s_id first) sessionsToDelete)
                  | Some v \<Rightarrow> (validSession, sessionsToDelete))
           in (validSession, deleteDuplicates fails sessionsToDelete d)))"


text \<open>\<^verbatim>\<open>deleteSession\<close>: P2025 is turned into \<^verbatim>\<open>null\<close>, any other error is thrown again.\<close>

definition deleteSession :: "(nat \<Rightarrow> bool) \<Rightarrow> nat \<Rightarrow> db \<Rightarrow> error + session option \<times> db" where
  "deleteSession fails sessionId d =
     (case session_delete fails sessionId d of
        Inr (s, d') \<Rightarrow> Inr (Some s, d')
      | Inl e \<Rightarrow> (if e = P2025 then Inr (None, d) else Inl e))"


subsection \<open>The subject classifier adapter\<close>

text \<open>Strings: \<^verbatim>\<open>s.includes(sub)\<close>, \<^verbatim>\<open>toLowerCase\<close> on ASCII letters, \<^verbatim>\<open>join\<close>.\<close>

fun str_includes :: "string \<Rightarrow> string \<Rightarrow> bool" where
  "str_includes [] sub = (sub = [])"
| "str_includes (c # cs) sub = (prefix sub (c # cs) \<or> str_includes cs sub)"

definition toLowerChar :: "char \<Rightarrow> char" where
  "toLowerChar c =
     (let n = (of_char c :: nat) in if 65 \<le> n \<and> n \<le> 90 then char_of (n + 32) else c)"

definition toLowerCase :: "string \<Rightarrow> string" where
  "toLowerCase s = map toLowerChar s"

fun join :: "string \<Rightarrow> string list \<Rightarrow> string" where
  "join sep [] = []"
| "join sep [x] = x"
| "join sep (x # y # ys) = x @ sep @ join sep (y # ys)"

text \<open>A string value that JavaScript takes for true: present and not empty.\<close>

definition truthy :: "string option \<Rightarrow> bool" where
  "truthy t = (t \<noteq> None \<and> t \<noteq> Some [])"

text \<open>
  The filter of \<^verbatim>\<open>detectAllSubjectsFromConversation\<close>: a user message with a text of
  more than two characters, or a bot message whose text mentions a drawing or an upload.
\<close>

definition describesVisual :: "string \<Rightarrow> bool" where
  "describesVisual txt =
     (let lowerText = toLowerCase txt in
        str_includes lowerText ''drawn'' \<or> str_includes lowerText ''drawing''
      \<or> str_includes lowerText ''image'' \<or> str_includes lowerText ''whiteboard''
      \<or> str_includes lowerText ''uploaded'' \<or> str_includes lowerText ''shape''
      \<or> str_includes lowerText ''diagram'')"

definition isRelevantMessage :: "message \<Rightarrow> bool" where
  "isRelevantMessage msg =
     (case m_text msg of
        None \<Rightarrow> False
      | Some txt \<Rightarrow>
          if m_sender msg = ''user'' \<and> txt \<noteq> [] \<and> length txt > 2 then True
          else if m_sender msg = ''bot'' \<and> txt \<noteq> [] then describesVisual txt
          else False)"

text \<open>
  The completion API is outside the program. The prompt the code builds from the relevant
  messages goes to it and is not modelled; its reply is a parameter, given as what the
  code makes of it:
  \<^item> \<open>RequestFailed\<close>: \<^verbatim>\<open>fetch\<close> or \<^verbatim>\<open>response.json()\<close> throws, or the content is not
    a string; the outer \<^verbatim>\<open>catch\<close> handles it;
  \<^item> \<open>NotJson\<close>: \<^verbatim>\<open>JSON.parse\<close> throws on the cleaned text, or the parsed value or one
    of the entries is \<^verbatim>\<open>null\<close>, so that reading its fields throws; the inner
    \<^verbatim>\<open>catch\<close> handles it;
  \<^item> \<open>NoSubjectList\<close>: the text parses, and \<^verbatim>\<open>result.subjects || []\<close> is not a
    non-empty array;
  \<^item> \<open>SubjectList\<close>: the entries of the array, each by the three fields the code reads:
    \<^verbatim>\<open>subject\<close> and \<^verbatim>\<open>topic\<close> (a string, or \<open>None\<close> when absent or \<^verbatim>\<open>null\<close>) and the
    value of \<^verbatim>\<open>parseInt(s.questionCount)\<close> (\<open>None\<close> for \<^verbatim>\<open>NaN\<close>).
\<close>

record raw_subject =
  r_subject :: "string option"
  r_topic :: "string option"
  r_questionCount :: "int option"

datatype ai_reply =
    RequestFailed
  | NotJson
  | NoSubjectList
  | SubjectList "raw_subject list"

record subject_bucket =
  b_subject :: string
  b_topic :: "string option"
  b_questionCount :: int

definition unknownBucket :: "int \<Rightarrow> subject_bucket" where
  "unknownBucket n = \<lparr>b_subject = ''Unknown'', b_topic = None, b_questionCount = n\<rparr>"

text \<open>
  The \<^verbatim>\<open>map\<close> over the entries: \<^verbatim>\<open>s.subject || 'Unknown'\<close>, \<^verbatim>\<open>s.topic || null\<close>,
  \<^verbatim>\<open>Math.max(1, parseInt(s.questionCount) || 1)\<close>.
\<close>

definition normalizeSubject :: "raw_subject \<Rightarrow> subject_bucket" where
  "normalizeSubject s =
     \<lparr>b_subject = (case r_subject s of
                      None \<Rightarrow> ''Unknown''
                    | Some t \<Rightarrow> if t = [] then ''Unknown'' else t),
      b_topic = (if truthy (r_topic s) then r_topic s else None),
      b_questionCount =
        max 1 (case r_questionCount s of None \<Rightarrow> 1 | Some n \<Rightarrow> if n = 0 then 1 else n)\<rparr>"

definition isRealSubject :: "subject_bucket \<Rightarrow> bool" where
  "isRealSubject s = (b_subject s \<noteq> ''Unknown'' \<and> b_subject s \<noteq> ''General'')"

text \<open>The entries mapped, sorted by descending count (the sort is stable), placeholders out.\<close>

definition uniqueSubjectsOf :: "raw_subject list \<Rightarrow> subject_bucket list" where
  "uniqueSubjectsOf subjects =
     (let sortedSubjects = sort_key (\<lambda>b. - b_questionCount b) (map normalizeSubject subjects)
      in filter isRealSubject sortedSubjects)"

definition mixedBucket :: "subject_bucket list \<Rightarrow> subject_bucket" where
  "mixedBucket uniqueSubjects =
     (let subjectNames = join '', '' (map b_subject uniqueSubjects);
          totalQuestions = sum_list (map b_questionCount uniqueSubjects)
      in \<lparr>b_subject = ''General Practice - Mixed: '' @ subjectNames, b_topic = None,
          b_questionCount = totalQuestions\<rparr>)"

definition detectAllSubjectsFromConversation :: "ai_reply \<Rightarrow> message list \<Rightarrow> subject_bucket list" where
  "detectAllSubjectsFromConversation reply msgs =
     (let relevantMessages = filter isRelevantMessage msgs in
      if length relevantMessages = 0 then [unknownBucket 0]
      else
        (case reply of
           RequestFailed \<Rightarrow> [unknownBucket 1]
         | NotJson \<Rightarrow> [unknownBucket (int (length relevantMessages))]
         | NoSubjectList \<Rightarrow> [unknownBucket (int (length relevantMessages))]
         | SubjectList subjects \<Rightarrow>
             if length subjects > 0 then
               (let uniqueSubjects = uniqueSubjectsOf subjects in
                if length uniqueSubjects = 0
                then [unknownBucket (int (length relevantMessages))]
                else if length uniqueSubjects = 1 then uniqueSubjects
                else [mixedBucket uniqueSubjects])
             else [unknownBucket (int (length relevantMessages))]))"

subsection \<open>Updating and completing a session\<close>

text \<open>\<^verbatim>\<open>allSubjects[0]\<close> followed by a read of its fields: a TypeError on an empty array.\<close>

definition firstBucket :: "subject_bucket list \<Rightarrow> error + subject_bucket" where
  "firstBucket allSubjects = (case allSubjects of [] \<Rightarrow> Inl TypeError | b # _ \<Rightarrow> Inr b)"

definition realMessagesOf :: "message list \<Rightarrow> message list" where
  "realMessagesOf msgs = filter (\<lambda>msg. m_id msg \<noteq> ''1'') msgs"

definition subjectInput :: "subject_bucket \<Rightarrow> session_input" where
  "subjectInput b = noInput\<lparr>i_subject := Some (Some (b_subject b)), i_topic := Some (b_topic b)\<rparr>"


text \<open>
  The row \<^verbatim>\<open>updateSession\<close> builds for one detected subject. \<^verbatim>\<open>totalQuestions\<close> is the
  number of real user messages.
\<close>

definition progressRecord ::
  "session \<Rightarrow> session_data \<Rightarrow> nat \<Rightarrow> nat \<Rightarrow> subject_bucket \<Rightarrow> progress" where
  "progressRecord session sessionData totalQuestions nSubjects subjectData =
     (let timeSpent = s_duration session;
          proportion = (of_int (b_questionCount subjectData) :: rat) / of_nat totalQuestions;
          subjectTimeSpent = js_round (of_int timeSpent * proportion);
          subjectQuestionsAttempted = b_questionCount subjectData;
          subjectQuestionsCorrect = js_round (of_int (s_correctAnswers session) * proportion)
      in \<lparr>p_userId = s_userId session,
          p_subject = b_subject subjectData,
          p_topic = (if truthy (b_topic subjectData) then b_topic subjectData else None),
          p_score = 0,
          p_accuracy = 0,
          p_timeSpent = subjectTimeSpent,
          p_questionsAttempted = subjectQuestionsAttempted,
          p_questionsCorrect = subjectQuestionsCorrect,
          p_questionsWrong = max 0 (subjectQuestionsAttempted - subjectQuestionsCorrect),
          p_level = ''beginner'',
          p_sessionId = s_id session,
          p_hasWhiteboard = (d_whiteboard sessionData \<noteq> None),
          p_photoUploads = s_photoUploadsCount session,
          p_aiInteractions = s_aiInteractions session,
          p_isMultiSubjectSession = (nSubjects > 1),
          p_totalSubjectsInSession = nSubjects\<rparr>)"

text \<open>
  \<^verbatim>\<open>prisma.progress.create\<close>. With no real user message the proportion is a division by
  zero, the rounded numbers of the row are not finite, and the ORM refuses the row.
\<close>

definition progress_create :: "nat \<Rightarrow> progress \<Rightarrow> db \<Rightarrow> error + db" where
  "progress_create totalQuestions row d =
     (if totalQuestions = 0 then Inl NonFinite
      else Inr (d\<lparr>progressRows := progressRows d @ [row]\<rparr>))"

text \<open>
  The loop over the detected subjects; an error ends it in the \<^verbatim>\<open>catch\<close> of
  \<^verbatim>\<open>updateSession\<close>, which keeps the rows created so far.
\<close>

fun createProgressRecords ::
  "session \<Rightarrow> session_data \<Rightarrow> nat \<Rightarrow> nat \<Rightarrow> subject_bucket list \<Rightarrow> db \<Rightarrow> db" where
  "createProgressRecords session sessionData totalQuestions nSubjects [] d = d"
| "createProgressRecords session sessionData totalQuestions nSubjects (subjectData # rest) d =
     (case progress_create totalQuestions
             (progressRecord session sessionData totalQuestions nSubjects subjectData) d of
        Inl e \<Rightarrow> d
      | Inr d' \<Rightarrow> createProgressRecords session sessionData totalQuestions nSubjects rest d')"

text \<open>
  The \<^verbatim>\<open>try\<close> block of \<^verbatim>\<open>updateSession\<close> for a session that is being completed and has
  data: nothing for a transcript without real messages; otherwise the subject is filled
  in when the session has none, and the progress rows are created.
\<close>

definition completeSession :: "timestamp \<Rightarrow> ai_reply \<Rightarrow> session \<Rightarrow> session_data \<Rightarrow> db \<Rightarrow> db" where
  "completeSession now reply session sessionData d =
     (let realMessages = realMessagesOf (d_messages sessionData) in
      if length realMessages = 0 then d
      else
        (let questionsAsked = length (filter (\<lambda>msg. m_sender msg = ''user'') realMessages);
             allSubjects = detectAllSubjectsFromConversation reply realMessages;
             written =
               (if \<not> truthy (s_subject session) \<and> length allSubjects > 0
                then (case firstBucket allSubjects of
                        Inl e \<Rightarrow> Inl e
                      | Inr primarySubject \<Rightarrow>
                          (case session_update now (s_id session) (subjectInput primarySubject) d of
                             Inl e \<Rightarrow> Inl e
                           | Inr (s, d') \<Rightarrow> Inr d'))
                else Inr d)
         in case written of
              Inl e \<Rightarrow> d
            | Inr d1 \<Rightarrow>
                createProgressRecords session sessionData questionsAsked (length allSubjects)
                  allSubjects d1))"

text \<open>
  \<^verbatim>\<open>updateSession\<close>, the part the caller waits for: the write, which throws P2025 for an
  unknown key, and the progress rows of a completion. \<open>reply\<close> is the reply of the
  completion API to the call made here.
\<close>

definition updateSession ::
  "timestamp \<Rightarrow> ai_reply \<Rightarrow> nat \<Rightarrow> session_input \<Rightarrow> db \<Rightarrow> error + session \<times> db" where
  "updateSession now reply sessionId inp d =
     (case session_update now sessionId inp d of
        Inl e \<Rightarrow> Inl e
      | Inr (session, d1) \<Rightarrow>
          (case s_data session of
             Some sessionData \<Rightarrow>
               if i_completed inp = Some True
               then Inr (session, completeSession now reply session sessionData d1)
               else Inr (session, d1)
           | None \<Rightarrow> Inr (session, d1)))"




text \<open>
  Notions the classifier theorems are stated with: the entries of a reply that name a
  real subject, in the order of the reply, and the set of their names.
\<close>

definition realBuckets :: "raw_subject list \<Rightarrow> subject_bucket list" where
  "realBuckets subjects = filter isRealSubject (map normalizeSubject subjects)"


subsection \<open>Retention settings and cleanup\<close>

text \<open>
  The retention columns of the admin settings row, and the outcome of reading the row:
  the read fails, there is no row, or there is one.
\<close>

record adminSettings =
  dataRetention :: bool
  retentionDuration :: string

datatype 'a read = ReadError | Absent | Present 'a

definition DEFAULT_SETTINGS :: adminSettings where
  "DEFAULT_SETTINGS = \<lparr>dataRetention = True, retentionDuration = ''30''\<rparr>"

text \<open>
  \<^verbatim>\<open>parseInt(s, 10)\<close>: leading white space, an optional sign, then the longest run of
  decimal digits; \<open>NaN\<close> when there is no digit.
\<close>

datatype jsnum = NaN | Num int

definition isSpaceChar :: "char \<Rightarrow> bool" where
  "isSpaceChar c = (c \<in> set [CHR '' '', CHR 0x09, CHR 0x0A, CHR 0x0B, CHR 0x0C, CHR 0x0D])"

definition isDigitChar :: "char \<Rightarrow> bool" where
  "isDigitChar c = (48 \<le> (of_char c :: nat) \<and> (of_char c :: nat) \<le> 57)"

definition digitsValue :: "string \<Rightarrow> int" where
  "digitsValue ds = foldl (\<lambda>acc c. acc * 10 + (int (of_char c) - 48)) 0 ds"

definition parseInt10 :: "string \<Rightarrow> jsnum" where
  "parseInt10 s =
     (let t = dropWhile isSpaceChar s;
          (sign, u) =
            (case t of
               [] \<Rightarrow> (1, [])
             | c # r \<Rightarrow>
                 if c = CHR ''-'' then (- 1, r)
                 else if c = CHR ''+'' then (1, r)
                 else (1, t));
          ds = takeWhile isDigitChar u
      in if ds = [] then NaN else Num (sign * digitsValue ds))"

text \<open>\<^verbatim>\<open>CleanupService.getRetentionSettings\<close>: \<^verbatim>\<open>durationDays\<close> is \<open>None\<close> for \<^verbatim>\<open>null\<close>.\<close>

record retention =
  enabled :: bool
  durationDays :: "jsnum option"

definition getRetentionSettings :: "adminSettings read \<Rightarrow> retention" where
  "getRetentionSettings r =
     (case r of
        ReadError \<Rightarrow> \<lparr>enabled = True, durationDays = Some (Num 30)\<rparr>
      | Absent \<Rightarrow> \<lparr>enabled = True, durationDays = Some (Num 30)\<rparr>
      | Present settings \<Rightarrow>
          \<lparr>enabled = dataRetention settings,
           durationDays =
             (if retentionDuration settings \<noteq> ''never''
              then Some (parseInt10 (retentionDuration settings))
              else None)\<rparr>)"

text \<open>\<^verbatim>\<open>extractFileUrlsFromSession\<close>: the urls that point into the blob store.\<close>

definition isS3Url :: "string \<Rightarrow> bool" where
  "isS3Url u = (str_includes u ''.s3.'' \<or> str_includes u ''s3.amazonaws.com'')"

definition attachmentUrls :: "string option list \<Rightarrow> string list" where
  "attachmentUrls atts =
     concat (map (\<lambda>a. case a of
                         None \<Rightarrow> []
                       | Some u \<Rightarrow> if u \<noteq> [] \<and> isS3Url u then [u] else []) atts)"

definition messageUrls :: "message \<Rightarrow> string list" where
  "messageUrls msg =
     attachmentUrls (m_attachments msg)
     @ (case m_image msg of
          None \<Rightarrow> []
        | Some u \<Rightarrow> if u \<noteq> [] \<and> isS3Url u then [u] else [])"

definition extractFileUrlsFromSession :: "session_data option \<Rightarrow> string list" where
  "extractFileUrlsFromSession sd =
     (case sd of
        None \<Rightarrow> []
      | Some sessionData \<Rightarrow>
          concat (map messageUrls (d_messages sessionData))
          @ concat (map attachmentUrls (d_chatHistory sessionData)))"

text \<open>
  The blob store, as \<^verbatim>\<open>cleanupOldSessions\<close> sees it: whether it is configured, and for
  which urls \<^verbatim>\<open>deleteFile\<close> succeeds; together with the storage failures of
  \<^verbatim>\<open>prisma.session.delete\<close>.
\<close>

record cleanup_env =
  s3Configured :: bool
  s3Deletes :: "string \<Rightarrow> bool"
  deleteFails :: "nat \<Rightarrow> bool"

definition deleteMultipleFiles :: "cleanup_env \<Rightarrow> string list \<Rightarrow> nat" where
  "deleteMultipleFiles env fileUrls = length (filter (s3Deletes env) fileUrls)"

record cleanup_result =
  sessionsDeleted :: nat
  filesDeleted :: nat
  errors :: nat

definition noCleanup :: cleanup_result where
  "noCleanup = \<lparr>sessionsDeleted = 0, filesDeleted = 0, errors = 0\<rparr>"

text \<open>The loop of \<^verbatim>\<open>cleanupOldSessions\<close> over the old sessions, each in its own \<^verbatim>\<open>try\<close>.\<close>

fun cleanupLoop :: "cleanup_env \<Rightarrow> session list \<Rightarrow> cleanup_result \<Rightarrow> db \<Rightarrow> cleanup_result \<times> db" where
  "cleanupLoop env [] result d = (result, d)"
| "cleanupLoop env (session # rest) result d =
     (let fileUrls = extractFileUrlsFromSession (s_data session);
          result1 =
            (if length fileUrls > 0 \<and> s3Configured env
             then result\<lparr>filesDeleted := filesDeleted result + deleteMultipleFiles env fileUrls\<rparr>
             else result)
      in case session_delete (deleteFails env) (s_id session) d of
           Inr (s, d') \<Rightarrow>
             cleanupLoop env rest (result1\<lparr>sessionsDeleted := sessionsDeleted result1 + 1\<rparr>) d'
         | Inl e \<Rightarrow> cleanupLoop env rest (result1\<lparr>errors := errors result1 + 1\<rparr>) d)"

text \<open>
  \<^verbatim>\<open>CleanupService.cleanupOldSessions\<close>, the cleanup the daily cron job runs through
  \<^verbatim>\<open>runFullCleanup\<close>. With a duration that does not parse, the cutoff is an invalid date
  and \<^verbatim>\<open>toISOString\<close> throws, which the outer \<^verbatim>\<open>catch\<close> counts as one error.
\<close>

definition cleanupOldSessions ::
  "cleanup_env \<Rightarrow> timestamp \<Rightarrow> adminSettings read \<Rightarrow> db \<Rightarrow> cleanup_result \<times> db" where
  "cleanupOldSessions env now r d =
     (let retention = getRetentionSettings r in
      if \<not> enabled retention \<or> durationDays retention = None then (noCleanup, d)
      else
        (case durationDays retention of
           None \<Rightarrow> (noCleanup, d)
         | Some NaN \<Rightarrow> (noCleanup\<lparr>errors := 1\<rparr>, d)
         | Some (Num days) \<Rightarrow>
             (let cutoffDate = minusDays now days;
                  oldSessions =
                    filter (\<lambda>s. s_completed s = True \<and> s_updatedAt s < cutoffDate) (sessions d)
              in if length oldSessions = 0 then (noCleanup, d)
                 else cleanupLoop env oldSessions noCleanup d)))"

text \<open>
  \<^verbatim>\<open>adminService.getSettings\<close>: a missing row is created with the defaults; a failing read
  throws.
\<close>

definition getSettings :: "adminSettings read \<Rightarrow> error + adminSettings" where
  "getSettings r =
     (case r of
        ReadError \<Rightarrow> Inl DbError
      | Absent \<Rightarrow> Inr DEFAULT_SETTINGS
      | Present settings \<Rightarrow> Inr settings)"

text \<open>
  \<^verbatim>\<open>userService.cleanupSessionsByRetentionPolicy\<close>: it returns the number of deleted
  sessions. \<^verbatim>\<open>deleteMany({})\<close> deletes every row.
\<close>

definition cleanupSessionsByRetentionPolicy ::
  "timestamp \<Rightarrow> adminSettings read \<Rightarrow> db \<Rightarrow> error + nat \<times> db" where
  "cleanupSessionsByRetentionPolicy now r d =
     (case getSettings r of
        Inl e \<Rightarrow> Inl e
      | Inr settings \<Rightarrow>
          if \<not> dataRetention settings \<or> retentionDuration settings = ''never''
          then Inr (length (sessions d), d\<lparr>sessions := []\<rparr>)
          else
            (case parseInt10 (if retentionDuration settings = [] then ''30''
                              else retentionDuration settings) of
               NaN \<Rightarrow> Inr (0, d)
             | Num retentionDays \<Rightarrow>
                 if retentionDays > 0 then
                   (let cutoffDate = minusDays now retentionDays;
                        kept = filter (\<lambda>s. \<not> s_updatedAt s < cutoffDate) (sessions d)
                    in Inr (length (sessions d) - length kept, d\<lparr>sessions := kept\<rparr>))
                 else Inr (0, d)))"

text \<open>
  \<^verbatim>\<open>DataRetentionScheduler.cleanupExpiredSessions\<close>, run at start-up and on a timer. It
  returns nothing; every error ends in its \<^verbatim>\<open>catch\<close>.
\<close>

definition cleanupExpiredSessions :: "timestamp \<Rightarrow> adminSettings read \<Rightarrow> db \<Rightarrow> db" where
  "cleanupExpiredSessions now r d =
     (case r of
        ReadError \<Rightarrow> d
      | Absent \<Rightarrow> d
      | Present adminSettings \<Rightarrow>
          if \<not> dataRetention adminSettings \<or> retentionDuration adminSettings = ''never''
          then d\<lparr>sessions := []\<rparr>
          else
            (let expiry =
                   (if retentionDuration adminSettings = ''7'' then Some (now - 7 * msPerDay)
                    else if retentionDuration adminSettings = ''30'' then Some (now - 30 * msPerDay)
                    else if retentionDuration adminSettings = ''90'' then Some (now - 90 * msPerDay)
                    else None)
             in case expiry of
                  None \<Rightarrow> d
                | Some expirationDate \<Rightarrow>
                    d\<lparr>sessions := filter (\<lambda>s. \<not> s_createdAt s < expirationDate) (sessions d)\<rparr>))"

subsection \<open>A worked scenario\<close>

text \<open>
  A session of user \<open>u1\<close> with the welcome message and ten questions, of which six were
  answered correctly, and a reply of the completion API that attributes seven questions
  to one subject and three to another.
\<close>

definition userMessage :: "string \<Rightarrow> string \<Rightarrow> message" where
  "userMessage k txt =
     \<lparr>m_id = k, m_sender = ''user'', m_text = Some txt, m_attachments = [], m_image = None\<rparr>"

definition tenQuestions :: session_data where
  "tenQuestions =
     \<lparr>d_messages =
        \<lparr>m_id = ''1'', m_sender = ''bot'', m_text = Some ''Welcome'', m_attachments = [],
         m_image = None\<rparr>
        # map (\<lambda>k. userMessage k ''why?'')
            [''q1'', ''q2'', ''q3'', ''q4'', ''q5'', ''q6'', ''q7'', ''q8'', ''q9'', ''q10''],
      d_whiteboard = None, d_chatHistory = []\<rparr>"

definition tenQuestionsSession :: session where
  "tenQuestionsSession =
     (newSession 0 1000 ''u1'')
       \<lparr>s_data := Some tenQuestions, s_questionsAnswered := 10, s_correctAnswers := 6\<rparr>"

definition tenQuestionsDb :: db where
  "tenQuestionsDb = \<lparr>sessions = [tenQuestionsSession], nextId = 1, progressRows = []\<rparr>"

definition sevenAndThree :: "raw_subject list" where
  "sevenAndThree =
     [\<lparr>r_subject = Some ''Mathematics'', r_topic = Some ''Algebra'', r_questionCount = Some 7\<rparr>,
      \<lparr>r_subject = Some ''Physics'', r_topic = None, r_questionCount = Some 3\<rparr>]"

definition completedInput :: session_input where
  "completedInput = noInput\<lparr>i_completed := Some True\<rparr>"

text \<open>
  A table in which user \<open>u1\<close> has three sessions that are not completed and have no
  resume marker: the most recent one without data, the two older ones with data.
\<close>

definition noMessages :: session_data where
  "noMessages = \<lparr>d_messages = [], d_whiteboard = None, d_chatHistory = []\<rparr>"

definition duplicatesDb :: db where
  "duplicatesDb =
     \<lparr>sessions =
        [(newSession 0 10 ''u1'')\<lparr>s_updatedAt := 30\<rparr>,
         (newSession 1 10 ''u1'')\<lparr>s_data := Some noMessages, s_updatedAt := 20\<rparr>,
         (newSession 2 10 ''u1'')\<lparr>s_data := Some noMessages, s_updatedAt := 10\<rparr>,
         newSession 3 10 ''u2''],
      nextId = 4, progressRows = []\<rparr>"

subsection \<open>Sequences of calls\<close>

text \<open>
  The state of a session by itself: not completed, and no resume marker. A request body
  creates a session in that state when it neither completes it nor sets a marker.
\<close>

definition isActiveState :: "session \<Rightarrow> bool" where
  "isActiveState s = isTrueActive (s_userId s) s"








section \<open>Star progress\<close>

lemma starProgressOf_formula:
  assumes "0 \<le> m" "0 \<le> q"
  shows "starProgressOf m q = starFormula m q"
proof -
  have a: "min ((of_int m / 120) * 100) (100::rat) * (4 / 10) = 40 * min (of_int m / 120) 1"
    by (simp add: min_def)
  have b: "min ((of_int q / 20) * 100) (100::rat) * (3 / 10) = 30 * min (of_int q / 20) 1"
    by (simp add: min_def)
  have c: "(if m > 0 then 100 else 0) * (3 / 10) = (30::rat) * (if m > 0 then 1 else 0)"
    by simp
  let ?t = "40 * min (of_int m / 120) 1 + 30 * min (of_int q / 20) 1
            + (30::rat) * (if m > 0 then 1 else 0)"
  have "0 \<le> ?t"
    using assms by (simp add: min_def)
  then have "0 \<le> js_round ?t"
    by (simp add: js_round_def)
  then show ?thesis
    unfolding starProgressOf_def starFormula_def STUDY_GOAL_MINUTES_def QUESTIONS_GOAL_def Let_def
    by (simp only: a b c) (simp add: min_def max_def)
qed

lemma starProgressOf_bounds:
  assumes "0 \<le> m" "0 \<le> q"
  shows "0 \<le> starProgressOf m q \<and> starProgressOf m q \<le> 100"
  using starProgressOf_formula [OF assms] by (simp add: starFormula_def)

text \<open>
  Claim C9. For non-negative counters of today's activity row, \<^verbatim>\<open>calculateStarProgress\<close>
  returns the rounded weighted sum 40 * min(studyMinutes/120, 1) + 30 *
  min(questionsAnswered/20, 1) + 30 * (1 if studyMinutes > 0 else 0) clamped to [0, 100];
  the result is an integer between 0 and 100; and afterwards today's row of the user is
  the row that was read with \<open>starProgress\<close> set to the result, every other row being as
  before.
\<close>

theorem calculateStarProgress_correct:
  assumes "getTodayActivity now userId tbl = (activity, tbl1)"
    and "0 \<le> studyMinutes activity" and "0 \<le> questionsAnswered activity"
    and "calculateStarProgress now userId tbl = (progress, tbl2)"
  shows "progress = starFormula (studyMinutes activity) (questionsAnswered activity)
       \<and> 0 \<le> progress \<and> progress \<le> 100
       \<and> tbl2 (userId, setHours0 now) = Some (activity\<lparr>starProgress := progress\<rparr>)
       \<and> (\<forall>k. k \<noteq> (userId, setHours0 now) \<longrightarrow> tbl2 k = tbl k)"
proof -
  have p: "progress = starProgressOf (studyMinutes activity) (questionsAnswered activity)"
    using assms(1,4) by (auto simp: calculateStarProgress_def Let_def)
  have t2: "tbl2 = updateTodayActivity now userId progress tbl1"
    using assms(1,4) by (auto simp: calculateStarProgress_def Let_def)
  have row: "tbl1 (userId, setHours0 now) = Some activity"
    using assms(1) by (auto simp: getTodayActivity_def Let_def split: option.splits)
  have frame: "\<forall>k. k \<noteq> (userId, setHours0 now) \<longrightarrow> tbl1 k = tbl k"
    using assms(1) by (auto simp: getTodayActivity_def Let_def split: option.splits)
  show ?thesis
    using p t2 row frame starProgressOf_formula [OF assms(2,3)]
      starProgressOf_bounds [OF assms(2,3)]
    by (simp add: updateTodayActivity_def Let_def)
qed

theorem calculateStarProgress_correct_witness:
  "fst (calculateStarProgress 90000000 ''u1''
     (Map.empty((''u1'', 86400000) \<mapsto>
        \<lparr>a_userId = ''u1'', a_date = 86400000, studyMinutes = 60, questionsAnswered = 5,
         photoQuestions = 0, positiveActions = 0, starProgress = 0\<rparr>))) = 58
   \<and> snd (calculateStarProgress 90000000 ''u1''
     (Map.empty((''u1'', 86400000) \<mapsto>
        \<lparr>a_userId = ''u1'', a_date = 86400000, studyMinutes = 60, questionsAnswered = 5,
         photoQuestions = 0, positiveActions = 0, starProgress = 0\<rparr>))) (''u1'', 86400000)
     = Some \<lparr>a_userId = ''u1'', a_date = 86400000, studyMinutes = 60, questionsAnswered = 5,
         photoQuestions = 0, positiveActions = 0, starProgress = 58\<rparr>
   \<and> starFormula 60 5 = 58"
proof -
  let ?a = "\<lparr>a_userId = ''u1'', a_date = 86400000, studyMinutes = 60, questionsAnswered = 5,
         photoQuestions = 0, positiveActions = 0, starProgress = 0\<rparr>"
  let ?tbl = "Map.empty((''u1'', 86400000::int) \<mapsto> ?a)"
  have day: "setHours0 90000000 = 86400000"
    by (simp add: setHours0_def msPerDay_def)
  have g: "getTodayActivity 90000000 ''u1'' ?tbl = (?a, ?tbl)"
    by (simp add: getTodayActivity_def day)
  have f: "starFormula 60 5 = 58"
    by (simp add: starFormula_def js_round_def)
  obtain progress tbl2 where c: "calculateStarProgress 90000000 ''u1'' ?tbl = (progress, tbl2)"
    by (cases "calculateStarProgress 90000000 ''u1'' ?tbl")
  from calculateStarProgress_correct [OF g _ _ c]
  have "progress = starFormula 60 5"
    "tbl2 (''u1'', 86400000) = Some (?a\<lparr>starProgress := progress\<rparr>)"
    by (simp_all add: day)
  with c f show ?thesis by simp
qed

section \<open>Streaks\<close>
































section \<open>Retention cleanup\<close>

text \<open>
  Claim C1, as amended. With retention disabled or the duration "never",
  \<^verbatim>\<open>cleanupSessionsByRetentionPolicy\<close> and the scheduler's \<^verbatim>\<open>cleanupExpiredSessions\<close> delete
  every session, whatever its age, while \<^verbatim>\<open>cleanupOldSessions\<close>, the cleanup of the daily
  cron job, returns at once and deletes nothing.
\<close>

theorem retention_off_cleanup:
  assumes "\<not> dataRetention settings \<or> retentionDuration settings = ''never''"
  shows "cleanupSessionsByRetentionPolicy now (Present settings) d
           = Inr (length (sessions d), d\<lparr>sessions := []\<rparr>)
       \<and> cleanupExpiredSessions now (Present settings) d = d\<lparr>sessions := []\<rparr>
       \<and> cleanupOldSessions env now (Present settings) d = (noCleanup, d)"
  using assms
  by (auto simp: cleanupSessionsByRetentionPolicy_def cleanupExpiredSessions_def
      cleanupOldSessions_def getRetentionSettings_def getSettings_def Let_def)

theorem retention_off_cleanup_witness:
  "cleanupSessionsByRetentionPolicy 100000
     (Present \<lparr>dataRetention = True, retentionDuration = ''never''\<rparr>)
     \<lparr>sessions = [newSession 0 95000 ''u1''], nextId = 1, progressRows = []\<rparr>
   = Inr (1, \<lparr>sessions = [], nextId = 1, progressRows = []\<rparr>)
   \<and> cleanupExpiredSessions 100000
     (Present \<lparr>dataRetention = True, retentionDuration = ''never''\<rparr>)
     \<lparr>sessions = [newSession 0 95000 ''u1''], nextId = 1, progressRows = []\<rparr>
   = \<lparr>sessions = [], nextId = 1, progressRows = []\<rparr>"
  using retention_off_cleanup
    [of "\<lparr>dataRetention = True, retentionDuration = ''never''\<rparr>" 100000
        "\<lparr>sessions = [newSession 0 95000 ''u1''], nextId = 1, progressRows = []\<rparr>"]
  by simp

text \<open>
  The claim as stated fails on \<^verbatim>\<open>cleanupOldSessions\<close>: with the duration "never", a
  completed session that was last updated five seconds ago is still there afterwards,
  and so is one that is a year old.
\<close>

theorem cleanupOldSessions_never_counterexample:
  "sessions (snd (cleanupOldSessions
       \<lparr>s3Configured = True, s3Deletes = (\<lambda>u. True), deleteFails = (\<lambda>k. False)\<rparr>
       40000000000
       (Present \<lparr>dataRetention = True, retentionDuration = ''never''\<rparr>)
       \<lparr>sessions = [(newSession 0 39999995000 ''u1'')\<lparr>s_completed := True\<rparr>,
                    (newSession 1 8000000000 ''u1'')\<lparr>s_completed := True\<rparr>],
        nextId = 2, progressRows = []\<rparr>))
   = [(newSession 0 39999995000 ''u1'')\<lparr>s_completed := True\<rparr>,
      (newSession 1 8000000000 ''u1'')\<lparr>s_completed := True\<rparr>]"
  by (simp add: cleanupOldSessions_def getRetentionSettings_def)

section \<open>Deleting a session\<close>

lemma findSession_removeFirst:
  "distinct (map s_id ss) \<Longrightarrow> find (\<lambda>s. s_id s = k) (removeFirst k ss) = None"
proof (induction ss)
  case Nil
  show ?case by simp
next
  case (Cons s ss)
  show ?case
  proof (cases "s_id s = k")
    case True
    have "k \<notin> s_id ` set ss" using Cons.prems True by auto
    then have "\<forall>x\<in>set ss. s_id x \<noteq> k" by (metis imageI)
    then show ?thesis using True by (simp add: find_None_iff)
  next
    case False
    then show ?thesis using Cons by simp
  qed
qed

text \<open>
  Claim C8. \<^verbatim>\<open>deleteSession\<close> never reports "record not found"; when the storage call
  itself does not fail, deleting a key that no row has returns \<^verbatim>\<open>null\<close> (already gone)
  and leaves the database as it is, and two calls in a row for the same key both return
  normally, the second one with \<^verbatim>\<open>null\<close> and without a change when keys are unique.
\<close>

theorem deleteSession_idempotent:
  assumes "\<not> fails k"
  shows "(findSession k d = None \<longrightarrow> deleteSession fails k d = Inr (None, d))
       \<and> (\<exists>r1 d1 r2 d2. deleteSession fails k d = Inr (r1, d1)
            \<and> deleteSession fails k d1 = Inr (r2, d2)
            \<and> (distinct (map s_id (sessions d)) \<longrightarrow> r2 = None \<and> d2 = d1))"
proof -
  have absent: "\<And>d. findSession k d = None \<Longrightarrow> deleteSession fails k d = Inr (None, d)"
    using assms by (simp add: deleteSession_def session_delete_def)
  show ?thesis
  proof (cases "findSession k d")
    case None
    then show ?thesis using absent [of d] by auto
  next
    case (Some s)
    let ?d1 = "d\<lparr>sessions := removeFirst k (sessions d)\<rparr>"
    have first: "deleteSession fails k d = Inr (Some s, ?d1)"
      using assms Some by (simp add: deleteSession_def session_delete_def)
    have "\<exists>r2 d2. deleteSession fails k ?d1 = Inr (r2, d2)"
      using assms by (auto simp: deleteSession_def session_delete_def split: option.splits)
    moreover have "distinct (map s_id (sessions d)) \<Longrightarrow> deleteSession fails k ?d1 = Inr (None, ?d1)"
      using absent [of ?d1] findSession_removeFirst [of "sessions d" k]
      by (simp add: findSession_def)
    ultimately show ?thesis using first Some by auto
  qed
qed

theorem deleteSession_idempotent_witness:
  "deleteSession (\<lambda>k. False) 0 \<lparr>sessions = [newSession 0 5 ''u1''], nextId = 1, progressRows = []\<rparr>
     = Inr (Some (newSession 0 5 ''u1''), \<lparr>sessions = [], nextId = 1, progressRows = []\<rparr>)
   \<and> deleteSession (\<lambda>k. False) 0 \<lparr>sessions = [], nextId = 1, progressRows = []\<rparr>
     = Inr (None, \<lparr>sessions = [], nextId = 1, progressRows = []\<rparr>)"
proof -
  have f: "findSession 0 \<lparr>sessions = [], nextId = 1, progressRows = []\<rparr> = None"
    by (simp add: findSession_def)
  have "deleteSession (\<lambda>k. False) 0 \<lparr>sessions = [], nextId = 1, progressRows = []\<rparr>
     = Inr (None, \<lparr>sessions = [], nextId = 1, progressRows = []\<rparr>)"
    using deleteSession_idempotent [of "\<lambda>k. False" 0 "\<lparr>sessions = [], nextId = 1, progressRows = []\<rparr>"] f
    by simp
  moreover have "deleteSession (\<lambda>k. False) 0 \<lparr>sessions = [newSession 0 5 ''u1''], nextId = 1, progressRows = []\<rparr>
     = Inr (Some (newSession 0 5 ''u1''), \<lparr>sessions = [], nextId = 1, progressRows = []\<rparr>)"
    by (simp add: deleteSession_def session_delete_def findSession_def newSession_def)
  ultimately show ?thesis by simp
qed

section \<open>The classifier\<close>

lemma detectAll_length: "length (detectAllSubjectsFromConversation reply msgs) = 1"
  by (cases reply) (auto simp: detectAllSubjectsFromConversation_def Let_def)

lemma sum_list_insort_key:
  "sum_list (map g (insort_key f x xs)) = g x + sum_list (map g (xs :: 'a list) :: int list)"
  by (induction xs) auto

lemma sum_list_sort_key:
  "sum_list (map g (sort_key f xs)) = sum_list (map g (xs :: 'a list) :: int list)"
  by (induction xs) (auto simp: sum_list_insort_key)

lemma uniqueSubjectsOf_sorted:
  "uniqueSubjectsOf subjects = sort_key (\<lambda>b. - b_questionCount b) (realBuckets subjects)"
  by (simp add: uniqueSubjectsOf_def realBuckets_def filter_sort)


lemma detectAll_mixed:
  assumes "filter isRelevantMessage msgs \<noteq> []" "2 \<le> length (realBuckets subjects)"
  shows "detectAllSubjectsFromConversation (SubjectList subjects) msgs
       = [\<lparr>b_subject = ''General Practice - Mixed: ''
              @ join '', '' (map b_subject
                  (sort_key (\<lambda>b. - b_questionCount b) (realBuckets subjects))),
           b_topic = None,
           b_questionCount = sum_list (map b_questionCount (realBuckets subjects))\<rparr>]"
proof -
  have l: "length (uniqueSubjectsOf subjects) = length (realBuckets subjects)"
    by (simp add: uniqueSubjectsOf_sorted)
  have ne: "subjects \<noteq> []" using assms(2) by (auto simp: realBuckets_def)
  have "detectAllSubjectsFromConversation (SubjectList subjects) msgs
          = [mixedBucket (uniqueSubjectsOf subjects)]"
    using assms l ne by (auto simp: detectAllSubjectsFromConversation_def Let_def)
  then show ?thesis
    by (simp add: mixedBucket_def Let_def uniqueSubjectsOf_sorted sum_list_sort_key)
qed




section \<open>Completing a session\<close>

lemma createProgressRecords_rows:
  "progressRows (createProgressRecords session sd t n bs d)
     = progressRows d @ (if t = 0 then [] else map (progressRecord session sd t n) bs)"
  by (induction bs arbitrary: d) (auto simp: progress_create_def)

lemma session_update_progressRows:
  "session_update now k inp d = Inr (s, d') \<Longrightarrow> progressRows d' = progressRows d"
  by (auto simp: session_update_def Let_def split: option.splits)

lemma completeSession_rows:
  "\<exists>rows. progressRows (completeSession now reply session sd d) = progressRows d @ rows
     \<and> length rows \<le> length (detectAllSubjectsFromConversation reply (realMessagesOf (d_messages sd)))"
  by (auto simp: completeSession_def Let_def createProgressRecords_rows
      session_update_progressRows split: sum.splits)

text \<open>
  Claim C10. For every reply of the completion API and every list of messages,
  \<^verbatim>\<open>detectAllSubjectsFromConversation\<close> returns exactly one bucket; so reading the first
  element of its result never fails, and an \<^verbatim>\<open>updateSession\<close> that returns has added at
  most one Progress row, after the rows that were there.
\<close>

theorem detectAll_single_bucket:
  "length (detectAllSubjectsFromConversation reply msgs) = 1
   \<and> (\<exists>b. firstBucket (detectAllSubjectsFromConversation reply msgs) = Inr b)
   \<and> (updateSession now reply k inp d = Inr (s, d') \<longrightarrow>
        (\<exists>rows. progressRows d' = progressRows d @ rows \<and> length rows \<le> 1))"
proof -
  have one: "\<And>ms. length (detectAllSubjectsFromConversation reply ms) = 1"
    by (rule detectAll_length)
  have "\<exists>b. firstBucket (detectAllSubjectsFromConversation reply msgs) = Inr b"
    using one [of msgs]
    by (cases "detectAllSubjectsFromConversation reply msgs") (simp_all add: firstBucket_def)
  moreover have "updateSession now reply k inp d = Inr (s, d') \<Longrightarrow>
        (\<exists>rows. progressRows d' = progressRows d @ rows \<and> length rows \<le> 1)"
  proof -
    assume u: "updateSession now reply k inp d = Inr (s, d')"
    then obtain d1 where w: "session_update now k inp d = Inr (s, d1)"
      by (auto simp: updateSession_def split: sum.splits option.splits if_splits)
    have p1: "progressRows d1 = progressRows d"
      using w by (rule session_update_progressRows)
    show ?thesis
    proof (cases "s_data s")
      case None
      then have "d' = d1" using u w by (simp add: updateSession_def)
      then show ?thesis using p1 by simp
    next
      case (Some sd)
      show ?thesis
      proof (cases "i_completed inp = Some True")
        case False
        then have "d' = d1" using u w Some by (simp add: updateSession_def)
        then show ?thesis using p1 by simp
      next
        case True
        then have "d' = completeSession now reply s sd d1"
          using u w Some by (simp add: updateSession_def)
        then show ?thesis
          using completeSession_rows [of now reply s sd d1] p1
            one [of "realMessagesOf (d_messages sd)"] by auto
      qed
    qed
  qed
  ultimately show ?thesis using one [of msgs] by blast
qed

theorem detectAll_single_bucket_witness:
  "length (detectAllSubjectsFromConversation (SubjectList sevenAndThree)
             (realMessagesOf (d_messages tenQuestions))) = 1
   \<and> (\<exists>session d' rows.
         updateSession 2000 (SubjectList sevenAndThree) 0 completedInput tenQuestionsDb
           = Inr (session, d')
       \<and> progressRows d' = progressRows tenQuestionsDb @ rows \<and> length rows \<le> 1)"
proof -
  have "\<not> isl (updateSession 2000 (SubjectList sevenAndThree) 0 completedInput tenQuestionsDb)"
    by code_simp
  then obtain session d' where
    u: "updateSession 2000 (SubjectList sevenAndThree) 0 completedInput tenQuestionsDb
          = Inr (session, d')"
    by (cases "updateSession 2000 (SubjectList sevenAndThree) 0 completedInput tenQuestionsDb") auto
  from detectAll_single_bucket
    [of "SubjectList sevenAndThree" "realMessagesOf (d_messages tenQuestions)" 2000 0
        completedInput tenQuestionsDb session d'] u
  show ?thesis by blast
qed


lemma findSession_id: "findSession k d = Some s \<Longrightarrow> s_id s = k"
  by (auto simp: findSession_def find_Some_iff)

lemma find_replaceFirst:
  "find (\<lambda>s. s_id s = k) ss = Some s0 \<Longrightarrow> s_id s' = k
     \<Longrightarrow> find (\<lambda>s. s_id s = k) (replaceFirst k s' ss) = Some s'"
  by (induction ss) (auto split: if_splits)

lemma session_update_found:
  assumes "findSession k d = Some s0"
  shows "session_update now k inp d
       = Inr ((applyInput inp s0)\<lparr>s_updatedAt := now\<rparr>,
              d\<lparr>sessions := replaceFirst k ((applyInput inp s0)\<lparr>s_updatedAt := now\<rparr>) (sessions d)\<rparr>)"
  using assms by (simp add: session_update_def Let_def)

lemma session_update_again:
  assumes "findSession k d = Some s0"
    and "session_update now k inp d = Inr (s, d1)"
  shows "\<exists>s2 d2. session_update now' k inp' d1 = Inr (s2, d2) \<and> progressRows d2 = progressRows d"
proof -
  have id: "s_id s0 = k" using assms(1) by (rule findSession_id)
  have s: "s = (applyInput inp s0)\<lparr>s_updatedAt := now\<rparr>"
    and d1: "d1 = d\<lparr>sessions := replaceFirst k s (sessions d)\<rparr>"
    using assms by (auto simp: session_update_found)
  have "s_id s = k" using s id by (simp add: applyInput_def)
  then have "findSession k d1 = Some s"
    using assms(1) d1 find_replaceFirst [of k "sessions d" s0 s] by (simp add: findSession_def)
  then show ?thesis
    using session_update_found [of k d1 s now' inp'] d1 by simp
qed

lemma js_round_int: "js_round (of_int n) = n"
  by (simp add: js_round_def) linarith

lemma completion_mixed_row:
  assumes "findSession k d = Some s0"
    and "i_completed inp = Some True"
    and "s_data (applyInput inp s0) = Some sd"
    and "length (filter (\<lambda>msg. m_sender msg = ''user'') (realMessagesOf (d_messages sd))) = 10"
    and "filter isRelevantMessage (realMessagesOf (d_messages sd)) \<noteq> []"
    and "s_correctAnswers (applyInput inp s0) = 6"
    and "realBuckets [r1, r2]
           = [\<lparr>b_subject = a, b_topic = ta, b_questionCount = 7\<rparr>,
              \<lparr>b_subject = b, b_topic = tb, b_questionCount = 3\<rparr>]"
  shows "\<exists>session d' row.
           updateSession now (SubjectList [r1, r2]) k inp d = Inr (session, d')
         \<and> progressRows d' = progressRows d @ [row]
         \<and> p_subject row = ''General Practice - Mixed: '' @ a @ '', '' @ b
         \<and> p_questionsAttempted row = 10 \<and> p_questionsCorrect row = 6"
proof -
  let ?reply = "SubjectList [r1, r2]"
  let ?s = "(applyInput inp s0)\<lparr>s_updatedAt := now\<rparr>"
  let ?d1 = "d\<lparr>sessions := replaceFirst k ?s (sessions d)\<rparr>"
  let ?real = "realMessagesOf (d_messages sd)"
  let ?mixed = "\<lparr>b_subject = ''General Practice - Mixed: '' @ a @ '', '' @ b, b_topic = None,
                 b_questionCount = 10\<rparr>"
  have w: "session_update now k inp d = Inr (?s, ?d1)"
    using assms(1) by (rule session_update_found)
  have data: "s_data ?s = Some sd" using assms(3) by simp
  have u: "updateSession now ?reply k inp d = Inr (?s, completeSession now ?reply ?s sd ?d1)"
    using w data assms(2) by (simp add: updateSession_def)
  have srt: "sort_key (\<lambda>b. - b_questionCount b) (realBuckets [r1, r2]) = realBuckets [r1, r2]"
    unfolding assms(7) by simp
  have det: "detectAllSubjectsFromConversation ?reply ?real = [?mixed]"
    using detectAll_mixed [OF assms(5), of "[r1, r2]"] unfolding srt
    by (simp add: assms(7))
  have ne: "length ?real \<noteq> 0"
  proof
    assume "length ?real = 0"
    then have "?real = []" by simp
    then show False using assms(4) by simp
  qed
  have upd: "\<exists>s2 d2. session_update now (s_id ?s) (subjectInput ?mixed) ?d1 = Inr (s2, d2)
       \<and> progressRows d2 = progressRows d"
  proof -
    have "s_id ?s = k" using findSession_id [OF assms(1)] by (simp add: applyInput_def)
    then show ?thesis using session_update_again [OF assms(1) w] by simp
  qed
  have p1: "progressRows ?d1 = progressRows d" by simp
  let ?row = "progressRecord ?s sd 10 1 ?mixed"
  have rows: "progressRows (completeSession now ?reply ?s sd ?d1) = progressRows d @ [?row]"
  proof (cases "\<not> truthy (s_subject ?s)")
    case True
    from upd obtain s2 d2 where
      "session_update now (s_id ?s) (subjectInput ?mixed) ?d1 = Inr (s2, d2)"
      "progressRows d2 = progressRows d" by blast
    then show ?thesis
      using True ne det assms(4)
      by (simp add: completeSession_def Let_def firstBucket_def progress_create_def)
  next
    case False
    then show ?thesis
      using ne det assms(4) p1
      by (simp add: completeSession_def Let_def progress_create_def)
  qed
  have "s_correctAnswers ?s = 6" using assms(6) by simp
  then have "p_questionsCorrect ?row = 6"
    using js_round_int [of 6] by (simp add: progressRecord_def Let_def)
  moreover have "p_questionsAttempted ?row = 10" "p_subject ?row = ''General Practice - Mixed: '' @ a @ '', '' @ b"
    by (simp_all add: progressRecord_def Let_def)
  ultimately show ?thesis using u rows by blast
qed

lemma proportional_split:
  assumes "s_correctAnswers session = 6"
  shows "map (\<lambda>p. (p_subject p, p_questionsAttempted p, p_questionsCorrect p))
           (progressRows (createProgressRecords session sd 10 2
              [\<lparr>b_subject = a, b_topic = ta, b_questionCount = 7\<rparr>,
               \<lparr>b_subject = b, b_topic = tb, b_questionCount = 3\<rparr>] d))
       = map (\<lambda>p. (p_subject p, p_questionsAttempted p, p_questionsCorrect p)) (progressRows d)
         @ [(a, 7, 4), (b, 3, 2)]"
  using assms
  by (simp add: progress_create_def progressRecord_def Let_def js_round_def floor_eq_iff)


text \<open>
  Claim C3, as amended. Completing a session with ten questions asked and
  \<open>correctAnswers = 6\<close>, for which the completion API names two real subjects with counts
  7 and 3, creates exactly one Progress row: its subject is the mixed-practice label of
  the two names, with \<open>questionsAttempted = 10\<close> and \<open>questionsCorrect = 6\<close>. The split by
  proportion itself, run on two buckets with counts 7 and 3, gives rows with 7 and 3
  questions attempted and round(6 * 0.7) = 4 and round(6 * 0.3) = 2 correct.
\<close>

theorem completion_two_subjects:
  assumes "findSession k d = Some s0"
    and "i_completed inp = Some True"
    and "s_data (applyInput inp s0) = Some sd"
    and "length (filter (\<lambda>msg. m_sender msg = ''user'') (realMessagesOf (d_messages sd))) = 10"
    and "filter isRelevantMessage (realMessagesOf (d_messages sd)) \<noteq> []"
    and "s_correctAnswers (applyInput inp s0) = 6"
    and "realBuckets [r1, r2]
           = [\<lparr>b_subject = a, b_topic = ta, b_questionCount = 7\<rparr>,
              \<lparr>b_subject = b, b_topic = tb, b_questionCount = 3\<rparr>]"
  shows "(\<exists>session d' row.
            updateSession now (SubjectList [r1, r2]) k inp d = Inr (session, d')
          \<and> progressRows d' = progressRows d @ [row]
          \<and> p_subject row = ''General Practice - Mixed: '' @ a @ '', '' @ b
          \<and> p_questionsAttempted row = 10 \<and> p_questionsCorrect row = 6)
       \<and> map (\<lambda>p. (p_subject p, p_questionsAttempted p, p_questionsCorrect p))
           (progressRows (createProgressRecords ((applyInput inp s0)\<lparr>s_updatedAt := now\<rparr>) sd 10 2
              [\<lparr>b_subject = a, b_topic = ta, b_questionCount = 7\<rparr>,
               \<lparr>b_subject = b, b_topic = tb, b_questionCount = 3\<rparr>] d))
         = map (\<lambda>p. (p_subject p, p_questionsAttempted p, p_questionsCorrect p)) (progressRows d)
           @ [(a, 7, 4), (b, 3, 2)]"
proof -
  have "s_correctAnswers ((applyInput inp s0)\<lparr>s_updatedAt := now\<rparr>) = 6"
    using assms(6) by simp
  then show ?thesis
    using completion_mixed_row [OF assms] proportional_split by blast
qed

lemma tenQuestions_facts:
  "findSession 0 tenQuestionsDb = Some tenQuestionsSession"
  "s_data (applyInput completedInput tenQuestionsSession) = Some tenQuestions"
  "s_correctAnswers (applyInput completedInput tenQuestionsSession) = 6"
  "i_completed completedInput = Some True"
  by (simp_all add: findSession_def tenQuestionsDb_def tenQuestionsSession_def newSession_def
      applyInput_def completedInput_def noInput_def orKeep_def)

lemma tenQuestions_messages:
  "length (filter (\<lambda>msg. m_sender msg = ''user'') (realMessagesOf (d_messages tenQuestions))) = 10"
  "filter isRelevantMessage (realMessagesOf (d_messages tenQuestions)) \<noteq> []"
  by code_simp+

lemma sevenAndThree_real:
  "realBuckets sevenAndThree
     = [\<lparr>b_subject = ''Mathematics'', b_topic = Some ''Algebra'', b_questionCount = 7\<rparr>,
        \<lparr>b_subject = ''Physics'', b_topic = None, b_questionCount = 3\<rparr>]"
  by (simp add: sevenAndThree_def realBuckets_def normalizeSubject_def isRealSubject_def truthy_def)

theorem completion_two_subjects_witness:
  "\<exists>session d' row.
      updateSession 2000 (SubjectList sevenAndThree) 0 completedInput tenQuestionsDb
        = Inr (session, d')
    \<and> progressRows d' = progressRows tenQuestionsDb @ [row]
    \<and> p_subject row = ''General Practice - Mixed: Mathematics, Physics''
    \<and> p_questionsAttempted row = 10 \<and> p_questionsCorrect row = 6"
  using completion_two_subjects [OF tenQuestions_facts(1,4,2) tenQuestions_messages
      tenQuestions_facts(3) sevenAndThree_real [unfolded sevenAndThree_def], of 2000]
  by (simp add: sevenAndThree_def)

text \<open>
  The claim as stated fails: the scenario of the claim ends with one Progress row, with
  10 questions attempted and 6 correct, not with two rows of 7 and 3.
\<close>

theorem completion_two_subjects_counterexample:
  "(case updateSession 2000 (SubjectList sevenAndThree) 0 completedInput tenQuestionsDb of
      Inl e \<Rightarrow> []
    | Inr (session, d') \<Rightarrow>
        map (\<lambda>p. (p_subject p, p_questionsAttempted p, p_questionsCorrect p)) (progressRows d'))
   = [(''General Practice - Mixed: Mathematics, Physics'', 10, 6)]"
  by code_simp

section \<open>The active session\<close>

lemma pickValid_Some:
  "pickValid xs (Some v) del = (Some v, del @ map s_id xs)"
  by (induction xs arbitrary: del) auto

lemma pickValid_None:
  "pickValid xs None del =
     (case find (\<lambda>s. s_data s \<noteq> None) xs of
        None \<Rightarrow> (None, del @ map s_id xs)
      | Some v \<Rightarrow> (Some v, del @ map s_id (remove1 v xs)))"
proof (induction xs arbitrary: del)
  case Nil
  show ?case by simp
next
  case (Cons x xs)
  show ?case
  proof (cases "s_data x \<noteq> None")
    case True
    then show ?thesis by (simp add: pickValid_Some)
  next
    case False
    then have nd: "s_data x = None" by simp
    show ?thesis
    proof (cases "find (\<lambda>s. s_data s \<noteq> None) xs")
      case None
      then show ?thesis using nd Cons.IH [of "del @ [s_id x]"] by simp
    next
      case (Some v)
      then have "s_data v \<noteq> None" by (auto simp: find_Some_iff)
      then have "x \<noteq> v" using nd by auto
      then show ?thesis using nd Some Cons.IH [of "del @ [s_id x]"] by simp
    qed
  qed
qed

lemma removeFirst_filter:
  "distinct (map s_id ss) \<Longrightarrow> removeFirst k ss = filter (\<lambda>s. s_id s \<noteq> k) ss"
proof (induction ss)
  case Nil
  show ?case by simp
next
  case (Cons s ss)
  show ?case
  proof (cases "s_id s = k")
    case True
    then have "\<forall>x\<in>set ss. s_id x \<noteq> k" using Cons.prems by (metis distinct.simps(2) imageI list.simps(9) set_map)
    then have "filter (\<lambda>s. s_id s \<noteq> k) ss = ss" by (simp add: filter_id_conv)
    then show ?thesis using True by simp
  next
    case False
    then show ?thesis using Cons by simp
  qed
qed

lemma findSession_None_filter:
  "find (\<lambda>s. s_id s = k) ss = None \<Longrightarrow> filter (\<lambda>s. s_id s \<noteq> k) ss = ss"
  by (simp add: find_None_iff filter_id_conv)

lemma session_delete_sessions:
  assumes "distinct (map s_id (sessions d))"
  shows "sessions (case session_delete fails k d of Inl e \<Rightarrow> d | Inr (s, d') \<Rightarrow> d')
       = filter (\<lambda>s. \<not> (s_id s = k \<and> \<not> fails k)) (sessions d)"
proof (cases "fails k")
  case True
  then show ?thesis by (simp add: session_delete_def)
next
  case False
  show ?thesis
  proof (cases "findSession k d")
    case None
    then show ?thesis
      using False findSession_None_filter [of k "sessions d"]
      by (simp add: session_delete_def findSession_def)
  next
    case (Some s)
    then show ?thesis
      using False removeFirst_filter [OF assms, of k] by (simp add: session_delete_def)
  qed
qed

lemma deleteDuplicates_step:
  "deleteDuplicates fails (k # ks) d
     = deleteDuplicates fails ks (case session_delete fails k d of Inl e \<Rightarrow> d | Inr (s, d') \<Rightarrow> d')"
  by (simp split: sum.splits)

lemma deleteDuplicates_sessions:
  assumes "distinct (map s_id (sessions d))"
  shows "sessions (deleteDuplicates fails ks d)
       = filter (\<lambda>s. \<not> (s_id s \<in> set ks \<and> \<not> fails (s_id s))) (sessions d)"
  using assms
proof (induction ks arbitrary: d)
  case Nil
  show ?case by simp
next
  case (Cons k ks)
  let ?d1 = "case session_delete fails k d of Inl e \<Rightarrow> d | Inr (s, d') \<Rightarrow> d'"
  have s1: "sessions ?d1 = filter (\<lambda>s. \<not> (s_id s = k \<and> \<not> fails k)) (sessions d)"
    using Cons.prems by (rule session_delete_sessions)
  then have "distinct (map s_id (sessions ?d1))"
    using Cons.prems by (simp add: distinct_map_filter)
  from Cons.IH [OF this]
  have "sessions (deleteDuplicates fails ks ?d1)
      = filter (\<lambda>s. \<not> (s_id s \<in> set ks \<and> \<not> fails (s_id s))) (sessions ?d1)" .
  then show ?case
    unfolding deleteDuplicates_step s1 by (auto intro: filter_cong)
qed


lemma activeSessionsOf_set:
  "set (activeSessionsOf u d) = {s \<in> set (sessions d). isTrueActive u s}"
  by (auto simp: activeSessionsOf_def)

lemma activeSessionsOf_sorted:
  "sorted (map (\<lambda>s. - s_updatedAt s) (activeSessionsOf u d))"
  by (simp add: activeSessionsOf_def)

lemma activeSessionsOf_distinct:
  assumes "distinct (map s_id (sessions d))"
  shows "distinct (activeSessionsOf u d)"
proof -
  have "distinct (sessions d)" using assms by (simp add: distinct_map)
  then show ?thesis by (simp add: activeSessionsOf_def)
qed

lemma getActiveSession_many:
  assumes "2 \<le> length (activeSessionsOf u d)"
  shows "\<exists>v. v \<in> set (activeSessionsOf u d)
     \<and> getActiveSession fails u d
         = (Some v, deleteDuplicates fails (map s_id (remove1 v (activeSessionsOf u d))) d)
     \<and> (case find (\<lambda>s. s_data s \<noteq> None) (activeSessionsOf u d) of
          Some w \<Rightarrow> v = w
        | None \<Rightarrow> v = hd (activeSessionsOf u d))"
proof -
  let ?xs = "activeSessionsOf u d"
  from assms obtain first second rest where xs: "?xs = first # second # rest"
    by (cases ?xs; cases "tl ?xs") auto
  show ?thesis
  proof (cases "find (\<lambda>s. s_data s \<noteq> None) ?xs")
    case None
    have "pickValid ?xs None [] = (None, map s_id ?xs)"
      using None by (simp add: pickValid_None)
    then have "getActiveSession fails u d
        = (Some first, deleteDuplicates fails (map s_id (second # rest)) d)"
      using xs by (simp add: getActiveSession_def Let_def)
    then show ?thesis using xs None by (intro exI [of _ first]) simp
  next
    case (Some w)
    have w: "w \<in> set ?xs" using Some by (auto simp: find_Some_iff)
    have "pickValid ?xs None [] = (Some w, map s_id (remove1 w ?xs))"
      using Some by (simp add: pickValid_None)
    then have "getActiveSession fails u d
        = (Some w, deleteDuplicates fails (map s_id (remove1 w ?xs)) d)"
      using xs by (simp add: getActiveSession_def Let_def)
    then show ?thesis using w Some by (intro exI [of _ w]) simp
  qed
qed

lemma find_first_most_recent:
  assumes "sorted (map (\<lambda>s. - s_updatedAt s) xs)"
    and "find P xs = Some v" and "s \<in> set xs" and "P s"
  shows "s_updatedAt s \<le> s_updatedAt v"
proof -
  from assms(2) obtain i where i: "i < length xs" "v = xs ! i" "\<forall>j<i. \<not> P (xs ! j)"
    by (auto simp: find_Some_iff)
  from assms(3) obtain j where j: "j < length xs" "s = xs ! j"
    by (auto simp: in_set_conv_nth)
  have "i \<le> j" using i(3) j(2) assms(4) by (meson not_le_imp_less)
  then have "map (\<lambda>s. - s_updatedAt s) xs ! i \<le> map (\<lambda>s. - s_updatedAt s) xs ! j"
    using assms(1) j(1) by (simp add: sorted_iff_nth_mono)
  then show ?thesis using i j \<open>i \<le> j\<close> by simp
qed

lemma hd_most_recent:
  assumes "sorted (map (\<lambda>s. - s_updatedAt s) xs)" and "s \<in> set xs"
  shows "s_updatedAt s \<le> s_updatedAt (hd xs)"
  using assms by (cases xs) auto

text \<open>
  Claim C5. When a user has more than one session that is not completed and has an empty
  \<open>lastPoint\<close> (the keys of the table being unique), \<^verbatim>\<open>getActiveSession\<close> returns one of
  them: if any of them has data, one with data that was updated no earlier than every
  other one with data; if none has, one that was updated no earlier than every other
  one. Afterwards the table holds the sessions it held, without the other duplicates
  whose deletion did not fail: a failing deletion keeps its own row only.
\<close>

theorem getActiveSession_repair:
  assumes "distinct (map s_id (sessions d))"
    and "2 \<le> length (filter (isTrueActive u) (sessions d))"
  shows "\<exists>v. fst (getActiveSession fails u d) = Some v
     \<and> v \<in> set (sessions d) \<and> isTrueActive u v
     \<and> ((\<exists>s\<in>set (sessions d). isTrueActive u s \<and> s_data s \<noteq> None) \<longrightarrow>
          s_data v \<noteq> None
          \<and> (\<forall>s\<in>set (sessions d). isTrueActive u s \<and> s_data s \<noteq> None
                \<longrightarrow> s_updatedAt s \<le> s_updatedAt v))
     \<and> ((\<forall>s\<in>set (sessions d). isTrueActive u s \<longrightarrow> s_data s = None) \<longrightarrow>
          (\<forall>s\<in>set (sessions d). isTrueActive u s \<longrightarrow> s_updatedAt s \<le> s_updatedAt v))
     \<and> sessions (snd (getActiveSession fails u d))
         = filter (\<lambda>s. \<not> (isTrueActive u s \<and> s_id s \<noteq> s_id v \<and> \<not> fails (s_id s)))
             (sessions d)"
proof -
  let ?xs = "activeSessionsOf u d"
  have len: "2 \<le> length ?xs" using assms(2) by (simp add: activeSessionsOf_def)
  from getActiveSession_many [OF len, of fails] obtain v where
    v: "v \<in> set ?xs"
    and g: "getActiveSession fails u d
         = (Some v, deleteDuplicates fails (map s_id (remove1 v ?xs)) d)"
    and c: "case find (\<lambda>s. s_data s \<noteq> None) ?xs of Some w \<Rightarrow> v = w | None \<Rightarrow> v = hd ?xs"
    by blast
  have vin: "v \<in> set (sessions d)" "isTrueActive u v"
    using v by (simp_all add: activeSessionsOf_set)
  have srt: "sorted (map (\<lambda>s. - s_updatedAt s) ?xs)" by (rule activeSessionsOf_sorted)
  have withData: "(\<exists>s\<in>set (sessions d). isTrueActive u s \<and> s_data s \<noteq> None) \<Longrightarrow>
          s_data v \<noteq> None
          \<and> (\<forall>s\<in>set (sessions d). isTrueActive u s \<and> s_data s \<noteq> None
                \<longrightarrow> s_updatedAt s \<le> s_updatedAt v)"
  proof -
    assume "\<exists>s\<in>set (sessions d). isTrueActive u s \<and> s_data s \<noteq> None"
    then have "\<exists>s\<in>set ?xs. s_data s \<noteq> None" by (auto simp: activeSessionsOf_set)
    then obtain w where w: "find (\<lambda>s. s_data s \<noteq> None) ?xs = Some w"
      by (cases "find (\<lambda>s. s_data s \<noteq> None) ?xs") (auto simp: find_None_iff)
    then have vw: "v = w" using c by simp
    have "s_data w \<noteq> None" using w by (auto simp: find_Some_iff)
    moreover have "\<forall>s\<in>set (sessions d). isTrueActive u s \<and> s_data s \<noteq> None
                \<longrightarrow> s_updatedAt s \<le> s_updatedAt w"
      using find_first_most_recent [OF srt w] by (auto simp: activeSessionsOf_set)
    ultimately show ?thesis using vw by simp
  qed
  have noData: "(\<forall>s\<in>set (sessions d). isTrueActive u s \<longrightarrow> s_data s = None) \<Longrightarrow>
          (\<forall>s\<in>set (sessions d). isTrueActive u s \<longrightarrow> s_updatedAt s \<le> s_updatedAt v)"
  proof -
    assume "\<forall>s\<in>set (sessions d). isTrueActive u s \<longrightarrow> s_data s = None"
    then have "find (\<lambda>s. s_data s \<noteq> None) ?xs = None"
      by (auto simp: find_None_iff activeSessionsOf_set)
    then have "v = hd ?xs" using c by simp
    then show ?thesis using hd_most_recent [OF srt] by (auto simp: activeSessionsOf_set)
  qed
  have dx: "distinct ?xs" using assms(1) by (rule activeSessionsOf_distinct)
  have ids: "\<And>s. s \<in> set (sessions d) \<Longrightarrow>
      (s_id s \<in> set (map s_id (remove1 v ?xs))) = (isTrueActive u s \<and> s_id s \<noteq> s_id v)"
  proof -
    fix s assume s: "s \<in> set (sessions d)"
    have inj: "inj_on s_id (set (sessions d))" using assms(1) by (simp add: distinct_map)
    have r: "set (remove1 v ?xs) = set ?xs - {v}" using dx by simp
    show "(s_id s \<in> set (map s_id (remove1 v ?xs))) = (isTrueActive u s \<and> s_id s \<noteq> s_id v)"
    proof
      assume "s_id s \<in> set (map s_id (remove1 v ?xs))"
      then have "s_id s \<in> s_id ` (set ?xs - {v})" using r by simp
      then obtain s' where s': "s' \<in> set ?xs" "s' \<noteq> v" "s_id s' = s_id s" by force
      then have "s' \<in> set (sessions d)" by (simp add: activeSessionsOf_set)
      then have "s' = s" using inj s s'(3) by (auto dest: inj_onD)
      moreover have "s_id s' \<noteq> s_id v"
        using inj s'(2) \<open>s' \<in> set (sessions d)\<close> vin(1) by (auto dest: inj_onD)
      ultimately show "isTrueActive u s \<and> s_id s \<noteq> s_id v"
        using s'(1) by (auto simp: activeSessionsOf_set)
    next
      assume a: "isTrueActive u s \<and> s_id s \<noteq> s_id v"
      then have "s \<in> set ?xs - {v}" using s by (auto simp: activeSessionsOf_set)
      then show "s_id s \<in> set (map s_id (remove1 v ?xs))" using r by auto
    qed
  qed
  have "sessions (snd (getActiveSession fails u d))
      = filter (\<lambda>s. \<not> (s_id s \<in> set (map s_id (remove1 v ?xs)) \<and> \<not> fails (s_id s))) (sessions d)"
    using g deleteDuplicates_sessions [OF assms(1)] by simp
  also have "\<dots> = filter (\<lambda>s. \<not> (isTrueActive u s \<and> s_id s \<noteq> s_id v \<and> \<not> fails (s_id s)))
             (sessions d)"
    by (rule filter_cong) (use ids in auto)
  finally have rest: "sessions (snd (getActiveSession fails u d))
      = filter (\<lambda>s. \<not> (isTrueActive u s \<and> s_id s \<noteq> s_id v \<and> \<not> fails (s_id s))) (sessions d)" .
  show ?thesis
    using g vin withData noData rest by (intro exI [of _ v]) (simp; blast)
qed


theorem getActiveSession_repair_witness:
  "fst (getActiveSession (\<lambda>k. k = 0) ''u1'' duplicatesDb)
     = Some ((newSession 1 10 ''u1'')\<lparr>s_data := Some noMessages, s_updatedAt := 20\<rparr>)
   \<and> map s_id (sessions (snd (getActiveSession (\<lambda>k. k = 0) ''u1'' duplicatesDb))) = [0, 1, 3]"
proof -
  let ?kept = "(newSession 1 10 ''u1'')\<lparr>s_data := Some noMessages, s_updatedAt := 20\<rparr>"
  have d: "distinct (map s_id (sessions duplicatesDb))"
    by (simp add: duplicatesDb_def newSession_def)
  have l: "2 \<le> length (filter (isTrueActive ''u1'') (sessions duplicatesDb))"
    by (simp add: duplicatesDb_def newSession_def isTrueActive_def)
  have f: "fst (getActiveSession (\<lambda>k. k = 0) ''u1'' duplicatesDb) = Some ?kept"
    by code_simp
  from getActiveSession_repair [OF d l, of "\<lambda>k. k = 0"] f
  have "sessions (snd (getActiveSession (\<lambda>k. k = 0) ''u1'' duplicatesDb))
      = filter (\<lambda>s. \<not> (isTrueActive ''u1'' s \<and> s_id s \<noteq> s_id ?kept \<and> s_id s \<noteq> 0))
          (sessions duplicatesDb)"
    by auto
  then show ?thesis
    using f by (simp add: duplicatesDb_def newSession_def isTrueActive_def)
qed

section \<open>Creating a session\<close>









lemma applyInput_userId [simp]: "s_userId (applyInput inp s) = s_userId s"
  by (simp add: applyInput_def)





section \<open>The invariant of the active session\<close>


lemma isActiveState_updatedAt [simp]:
  "isActiveState (s\<lparr>s_updatedAt := t\<rparr>) = isActiveState s"
  by (simp add: isActiveState_def isTrueActive_def)


lemma subjectInput_state [simp]:
  "isActiveState (applyInput (subjectInput b) s) = isActiveState s"
  by (simp add: isActiveState_def isTrueActive_def applyInput_def subjectInput_def noInput_def
      orKeep_def)

lemma createProgressRecords_sessions [simp]:
  "sessions (createProgressRecords session sd t n bs d) = sessions d"
  by (induction bs arbitrary: d) (auto simp: progress_create_def)











end
